theory Spec2Isabelle
  imports Main "HOL-Library.Monad_Syntax" "HOL-Library.Code_Target_Numeral"
begin

section \<open>Python values used by the invoice service\<close>

subsection \<open>Text\<close>

text \<open>
  A Python \<open>str\<close> is modelled as a \<open>string\<close>, one \<open>char\<close> per code point, so the
  model covers text over the code points 0..255. On that range the decimal digits of
  \<open>\d\<close>, \<open>int()\<close> and \<open>float()\<close> are the ASCII digits, and \<open>str.isspace\<close> holds for the
  twelve characters listed in \<open>isspace\<close>.
\<close>

definition isdigit :: "char \<Rightarrow> bool" where
  "isdigit c = (48 \<le> (of_char c :: nat) \<and> (of_char c :: nat) \<le> 57)"

definition digit_val :: "char \<Rightarrow> nat" where
  "digit_val c = of_char c - 48"

definition digit_char :: "nat \<Rightarrow> char" where
  "digit_char n = char_of (48 + n)"

definition isspace :: "char \<Rightarrow> bool" where
  "isspace c = ((of_char c :: nat) \<in> {9, 10, 11, 12, 13, 28, 29, 30, 31, 32, 133, 160})"

definition strip :: "string \<Rightarrow> string" where
  "strip s = rev (dropWhile isspace (rev (dropWhile isspace s)))"

text \<open>\<open>str.lower\<close> on code points below 256: A-Z and the Latin-1 capitals move up by 32.\<close>

definition lower_char :: "char \<Rightarrow> char" where
  "lower_char c =
     (let n = (of_char c :: nat) in
      if (65 \<le> n \<and> n \<le> 90) \<or> (192 \<le> n \<and> n \<le> 222 \<and> n \<noteq> 215) then char_of (n + 32) else c)"

definition lower :: "string \<Rightarrow> string" where
  "lower s = map lower_char s"

text \<open>
  \<open>str.upper\<close> on code points below 256: a-z and the Latin-1 small letters move down by
  32 and the sharp s (223) becomes \<open>SS\<close>. The capitals of the micro sign (181) and of y
  with diaeresis (255) lie beyond code point 255; the model leaves these two characters
  as they are, which keeps the result outside the ASCII letters, as in Python.
\<close>

definition upper_char :: "char \<Rightarrow> string" where
  "upper_char c =
     (let n = (of_char c :: nat) in
      if (97 \<le> n \<and> n \<le> 122) \<or> (224 \<le> n \<and> n \<le> 254 \<and> n \<noteq> 247) then [char_of (n - 32)]
      else if n = 223 then ''SS'' else [c])"

definition upper :: "string \<Rightarrow> string" where
  "upper s = concat (map upper_char s)"

text \<open>\<open>s.rfind(c)\<close> for a one-character needle: the last index of \<open>c\<close>, or -1.\<close>

fun rfind_from :: "char \<Rightarrow> string \<Rightarrow> int \<Rightarrow> int \<Rightarrow> int" where
  "rfind_from c [] i found = found"
| "rfind_from c (x # xs) i found = rfind_from c xs (i + 1) (if x = c then i else found)"

definition rfind :: "char \<Rightarrow> string \<Rightarrow> int" where
  "rfind c s = rfind_from c s 0 (-1)"

text \<open>\<open>s.replace(c, new)\<close> for a one-character needle: every occurrence is replaced.\<close>

definition replace :: "char \<Rightarrow> string \<Rightarrow> string \<Rightarrow> string" where
  "replace c new s = concat (map (\<lambda>x. if x = c then new else [x]) s)"

text \<open>Truthiness of an \<open>Optional[str]\<close>: \<open>None\<close> and the empty string are falsy.\<close>

fun truthy :: "string option \<Rightarrow> bool" where
  "truthy None = False"
| "truthy (Some s) = (s \<noteq> [])"

datatype exn = ValueError

subsection \<open>Floats\<close>

text \<open>
  A Python \<open>float\<close> is an IEEE 754 binary64 value. \<open>Finite s m e\<close> is the number
  \<open>(-1)^s * m * 2^e\<close>; the values of the format are those with \<open>m < 2^53\<close>,
  \<open>-1074 \<le> e \<le> 971\<close> and \<open>2^52 \<le> m\<close> unless \<open>e = -1074\<close>, which gives every
  value one representation (the two zeros are \<open>Finite s 0 (-1074)\<close>).
\<close>

datatype pyfloat = Finite bool nat int | Infinity bool | NaN

definition is_binary64 :: "pyfloat \<Rightarrow> bool" where
  "is_binary64 x =
     (case x of
        Finite s m e \<Rightarrow> m < 2 ^ 53 \<and> - 1074 \<le> e \<and> e \<le> 971 \<and> (2 ^ 52 \<le> m \<or> e = - 1074)
      | _ \<Rightarrow> True)"

fun bit_length :: "nat \<Rightarrow> nat" where
  "bit_length n = (if n = 0 then 0 else Suc (bit_length (n div 2)))"

declare bit_length.simps [simp del]

text \<open>\<open>ge_pow2 n d k\<close>: the fraction \<open>n / d\<close> is at least \<open>2^k\<close>.\<close>

definition ge_pow2 :: "nat \<Rightarrow> nat \<Rightarrow> int \<Rightarrow> bool" where
  "ge_pow2 n d k = (if 0 \<le> k then d * 2 ^ nat k \<le> n else d \<le> n * 2 ^ nat (- k))"

text \<open>
  \<open>floor_log2 n d\<close>: the integer \<open>k\<close> with \<open>2^k \<le> n / d < 2^(k+1)\<close>, for positive
  \<open>n\<close> and \<open>d\<close>. The bit lengths place it at their difference or one below.
\<close>

definition floor_log2 :: "nat \<Rightarrow> nat \<Rightarrow> int" where
  "floor_log2 n d =
     (let k = int (bit_length n) - int (bit_length d) in if ge_pow2 n d k then k else k - 1)"

text \<open>\<open>rne n d\<close>: the fraction \<open>n / d\<close> rounded to the nearest integer, ties to even.\<close>

definition rne :: "nat \<Rightarrow> nat \<Rightarrow> nat" where
  "rne n d =
     (let q = n div d; r = n mod d in
      if 2 * r < d then q else if d < 2 * r then q + 1 else if even q then q else q + 1)"

text \<open>
  \<open>round_ratio s n d\<close>: the binary64 value nearest to \<open>(-1)^s * n / d\<close> (\<open>d > 0\<close>),
  ties to even: 53 significant bits, fewer below \<open>2^-1022\<close>, infinity from
  \<open>2^1024 - 2^970\<close> on.
\<close>

definition round_ratio :: "bool \<Rightarrow> nat \<Rightarrow> nat \<Rightarrow> pyfloat" where
  "round_ratio s n d =
     (if n = 0 then Finite s 0 (- 1074)
      else
        let e = max (floor_log2 n d - 52) (- 1074);
            q = (if 0 \<le> e then rne n (d * 2 ^ nat e) else rne (n * 2 ^ nat (- e)) d);
            m = (if q = 2 ^ 53 then 2 ^ 52 else q);
            e' = (if q = 2 ^ 53 then e + 1 else e)
        in if 971 < e' then Infinity s else Finite s m e')"

text \<open>\<open>round_dyadic s m e\<close>: the binary64 value nearest to \<open>(-1)^s * m * 2^e\<close>.\<close>

definition round_dyadic :: "bool \<Rightarrow> nat \<Rightarrow> int \<Rightarrow> pyfloat" where
  "round_dyadic s m e = (if 0 \<le> e then round_ratio s (m * 2 ^ nat e) 1 else round_ratio s m (2 ^ nat (- e)))"

text \<open>The signed integer \<open>k\<close> with \<open>(-1)^s * m * 2^e = k * 2^(min e e')\<close>.\<close>

definition aligned :: "bool \<Rightarrow> nat \<Rightarrow> int \<Rightarrow> int \<Rightarrow> int" where
  "aligned s m e e' = (if s then - 1 else 1) * int m * 2 ^ nat (e - min e e')"

text \<open>
  \<open>x + y\<close>: the exact sum, rounded. An exact sum of zero is \<open>+0.0\<close>, except that
  \<open>-0.0 + -0.0\<close> is \<open>-0.0\<close>; opposite infinities give NaN.
\<close>

fun float_add :: "pyfloat \<Rightarrow> pyfloat \<Rightarrow> pyfloat" where
  "float_add NaN y = NaN"
| "float_add x NaN = NaN"
| "float_add (Infinity s) (Infinity t) = (if s = t then Infinity s else NaN)"
| "float_add (Infinity s) (Finite t m e) = Infinity s"
| "float_add (Finite s m e) (Infinity t) = Infinity t"
| "float_add (Finite s m e) (Finite t m' e') =
     (let k = aligned s m e e' + aligned t m' e' e in
      if k = 0 then Finite (if m = 0 \<and> m' = 0 then s \<and> t else False) 0 (- 1074)
      else round_dyadic (k < 0) (nat \<bar>k\<bar>) (min e e'))"

fun float_neg :: "pyfloat \<Rightarrow> pyfloat" where
  "float_neg NaN = NaN"
| "float_neg (Infinity s) = Infinity (\<not> s)"
| "float_neg (Finite s m e) = Finite (\<not> s) m e"

definition float_sub :: "pyfloat \<Rightarrow> pyfloat \<Rightarrow> pyfloat" where
  "float_sub x y = float_add x (float_neg y)"

fun float_abs :: "pyfloat \<Rightarrow> pyfloat" where
  "float_abs NaN = NaN"
| "float_abs (Infinity s) = Infinity False"
| "float_abs (Finite s m e) = Finite False m e"

text \<open>\<open>x < y\<close>: false when either side is NaN; the two zeros are equal.\<close>

fun float_lt :: "pyfloat \<Rightarrow> pyfloat \<Rightarrow> bool" where
  "float_lt NaN y = False"
| "float_lt x NaN = False"
| "float_lt (Infinity s) (Infinity t) = (s \<and> \<not> t)"
| "float_lt (Infinity s) (Finite t m e) = s"
| "float_lt (Finite s m e) (Infinity t) = (\<not> t)"
| "float_lt (Finite s m e) (Finite t m' e') = (aligned s m e e' < aligned t m' e' e)"

definition float_gt :: "pyfloat \<Rightarrow> pyfloat \<Rightarrow> bool" where
  "float_gt x y = float_lt y x"

text \<open>
  \<open>round(x, 2)\<close>: CPython prints \<open>x\<close> with two decimals, correctly rounded from its
  exact value with ties to even, and reads the result back; infinities and NaN are
  returned as they are.
\<close>

fun round2 :: "pyfloat \<Rightarrow> pyfloat" where
  "round2 (Finite s m e) =
     round_ratio s (if 0 \<le> e then 100 * m * 2 ^ nat e else rne (100 * m) (2 ^ nat (- e))) 100"
| "round2 x = x"

text \<open>The literals \<open>0\<close> (compared with a float) and \<open>0.01\<close>.\<close>

definition float_zero :: pyfloat where
  "float_zero = Finite False 0 (- 1074)"

definition float_0_01 :: pyfloat where
  "float_0_01 = round_ratio False 1 100"

subsection \<open>\<open>float(str)\<close>\<close>

text \<open>
  \<open>float(s)\<close> strips its white space, then reads an optional sign followed by
  \<open>inf\<close>, \<open>infinity\<close> or \<open>nan\<close> in any case, or by a decimal number with an optional
  exponent; groups of digits may carry single underscores between digits. The value is
  correctly rounded. Anything else raises ValueError.
\<close>

definition digitpart :: "string \<Rightarrow> bool" where
  "digitpart s =
     (s \<noteq> [] \<and> isdigit (hd s) \<and> isdigit (last s) \<and>
      list_all (\<lambda>c. isdigit c \<or> c = CHR ''_'') s \<and>
      list_all (\<lambda>(a, b). \<not> (a = CHR ''_'' \<and> b = CHR ''_'')) (zip s (tl s)))"

definition digits_val :: "string \<Rightarrow> nat" where
  "digits_val s = foldl (\<lambda>a c. 10 * a + digit_val c) 0 (filter isdigit s)"

text \<open>Split at the first character satisfying \<open>P\<close>, if there is one.\<close>

definition split_first :: "(char \<Rightarrow> bool) \<Rightarrow> string \<Rightarrow> string \<times> string option" where
  "split_first P s =
     (takeWhile (\<lambda>c. \<not> P c) s,
      case dropWhile (\<lambda>c. \<not> P c) s of [] \<Rightarrow> None | _ # r \<Rightarrow> Some r)"

definition split_sign :: "string \<Rightarrow> bool \<times> string" where
  "split_sign s =
     (case s of
        c # r \<Rightarrow> if c = CHR ''-'' then (True, r) else if c = CHR ''+'' then (False, r) else (False, s)
      | [] \<Rightarrow> (False, s))"

text \<open>The exact value \<open>n / d\<close> of an unsigned decimal number with optional exponent.\<close>

definition parse_decimal :: "string \<Rightarrow> (nat \<times> nat) option" where
  "parse_decimal u =
     (let (mant, ex) = split_first (\<lambda>c. c = CHR ''e'' \<or> c = CHR ''E'') u;
          (ip, fp) = split_first (\<lambda>c. c = CHR ''.'') mant;
          fr = (case fp of None \<Rightarrow> [] | Some f \<Rightarrow> f);
          mant_ok = (case fp of
                       None \<Rightarrow> digitpart ip
                     | Some f \<Rightarrow> (ip = [] \<or> digitpart ip) \<and> (f = [] \<or> digitpart f) \<and> \<not> (ip = [] \<and> f = []));
          (eneg, eds) = (case ex of None \<Rightarrow> (False, []) | Some x \<Rightarrow> split_sign x);
          ex_ok = (case ex of None \<Rightarrow> True | Some x \<Rightarrow> digitpart eds);
          k = (if eneg then - int (digits_val eds) else int (digits_val eds))
                - int (length (filter isdigit fr));
          n = digits_val (ip @ fr)
      in if mant_ok \<and> ex_ok then Some (if 0 \<le> k then (n * 10 ^ nat k, 1) else (n, 10 ^ nat (- k)))
         else None)"

text \<open>
  The white space \<open>float\<close> removes at both ends is narrower than that of \<open>str.strip\<close>:
  the four separator controls 28 to 31 are not part of it, so a text that starts or ends
  with one of them is not a number.
\<close>

definition float_isspace :: "char \<Rightarrow> bool" where
  "float_isspace c = ((of_char c :: nat) \<in> {9, 10, 11, 12, 13, 32, 133, 160})"

definition float_strip :: "string \<Rightarrow> string" where
  "float_strip s = rev (dropWhile float_isspace (rev (dropWhile float_isspace s)))"

definition float_of_str :: "string \<Rightarrow> exn + pyfloat" where
  "float_of_str s =
     (let (neg, u) = split_sign (float_strip s); l = lower u in
      if l = ''inf'' \<or> l = ''infinity'' then Inr (Infinity neg)
      else if l = ''nan'' then Inr NaN
      else case parse_decimal u of None \<Rightarrow> Inl ValueError | Some (n, d) \<Rightarrow> Inr (round_ratio neg n d))"

section \<open>Extraction: amounts\<close>

text \<open>
  \<open>InvoiceExtractor._parse_amount\<close>: strip, choose the decimal separator, and hand the
  rewritten text to \<open>float\<close>.
\<close>

definition parse_amount :: "string \<Rightarrow> exn + pyfloat" where
  "parse_amount amount_str0 =
     (let amount_str = strip amount_str0 in
      if CHR '','' \<in> set amount_str \<and> CHR ''.'' \<in> set amount_str then
        if rfind CHR '','' amount_str > rfind CHR ''.'' amount_str
        then float_of_str (replace CHR '','' ''.'' (replace CHR ''.'' [] amount_str))
        else float_of_str (replace CHR '','' [] amount_str)
      else if CHR '','' \<in> set amount_str then
        let comma_pos = rfind CHR '','' amount_str in
        if comma_pos > 0 \<and> int (length amount_str) - comma_pos = 3
        then float_of_str (replace CHR '','' ''.'' amount_str)
        else float_of_str (replace CHR '','' [] amount_str)
      else float_of_str amount_str)"

text \<open>
  The commas and dots of a text, in order: the last element is the separator that occurs
  last. Used to state which branch \<open>parse_amount\<close> takes.
\<close>

definition separators :: "string \<Rightarrow> string" where
  "separators s = filter (\<lambda>c. c = CHR '','' \<or> c = CHR ''.'') s"

section \<open>Dates\<close>

text \<open>
  \<open>datetime.strptime\<close> and \<open>strftime\<close> for the formats the service uses. A parsed
  value is a calendar date (the time of day is always midnight); dates compare by
  year, then month, then day.
\<close>

datatype pydate = Date nat nat nat

fun date_lt :: "pydate \<Rightarrow> pydate \<Rightarrow> bool" where
  "date_lt (Date y m d) (Date y' m' d') = (y < y' \<or> (y = y' \<and> (m < m' \<or> (m = m' \<and> d < d'))))"

definition is_leap :: "nat \<Rightarrow> bool" where
  "is_leap y = (y mod 4 = 0 \<and> (y mod 100 \<noteq> 0 \<or> y mod 400 = 0))"

definition days_in_month :: "nat \<Rightarrow> nat \<Rightarrow> nat" where
  "days_in_month y m =
     (if m = 2 then (if is_leap y then 29 else 28)
      else if m = 4 \<or> m = 6 \<or> m = 9 \<or> m = 11 then 30 else 31)"

text \<open>
  \<open>strptime\<close> turns a format into a regular expression and takes the first match the
  backtracking matcher finds at the start of the text. Each matcher below lists the ways
  its piece can match, in the order the matcher tries them, as pairs of the piece's
  value and the text that remains.
\<close>

definition in_range :: "char \<Rightarrow> char \<Rightarrow> char \<Rightarrow> bool" where
  "in_range lo hi c = ((of_char lo :: nat) \<le> of_char c \<and> (of_char c :: nat) \<le> of_char hi)"

text \<open>\<open>%d\<close>: \<open>3[0-1]|[1-2]\d|0[1-9]|[1-9]| [1-9]\<close>\<close>

definition re_d :: "string \<Rightarrow> (nat \<times> string) list" where
  "re_d s =
     (case s of a # b # r \<Rightarrow>
        if a = CHR ''3'' \<and> in_range CHR ''0'' CHR ''1'' b then [(10 * digit_val a + digit_val b, r)] else []
      | _ \<Rightarrow> []) @
     (case s of a # b # r \<Rightarrow>
        if in_range CHR ''1'' CHR ''2'' a \<and> isdigit b then [(10 * digit_val a + digit_val b, r)] else []
      | _ \<Rightarrow> []) @
     (case s of a # b # r \<Rightarrow>
        if a = CHR ''0'' \<and> in_range CHR ''1'' CHR ''9'' b then [(digit_val b, r)] else []
      | _ \<Rightarrow> []) @
     (case s of a # r \<Rightarrow>
        if in_range CHR ''1'' CHR ''9'' a then [(digit_val a, r)] else []
      | _ \<Rightarrow> []) @
     (case s of a # b # r \<Rightarrow>
        if a = CHR '' '' \<and> in_range CHR ''1'' CHR ''9'' b then [(digit_val b, r)] else []
      | _ \<Rightarrow> [])"

text \<open>\<open>%m\<close>: \<open>1[0-2]|0[1-9]|[1-9]\<close>\<close>

definition re_m :: "string \<Rightarrow> (nat \<times> string) list" where
  "re_m s =
     (case s of a # b # r \<Rightarrow>
        if a = CHR ''1'' \<and> in_range CHR ''0'' CHR ''2'' b then [(10 * digit_val a + digit_val b, r)] else []
      | _ \<Rightarrow> []) @
     (case s of a # b # r \<Rightarrow>
        if a = CHR ''0'' \<and> in_range CHR ''1'' CHR ''9'' b then [(digit_val b, r)] else []
      | _ \<Rightarrow> []) @
     (case s of a # r \<Rightarrow>
        if in_range CHR ''1'' CHR ''9'' a then [(digit_val a, r)] else []
      | _ \<Rightarrow> [])"

text \<open>\<open>%Y\<close>: \<open>\d\d\d\d\<close>\<close>

definition re_Y :: "string \<Rightarrow> (nat \<times> string) list" where
  "re_Y s =
     (case s of a # b # c # d # r \<Rightarrow>
        if isdigit a \<and> isdigit b \<and> isdigit c \<and> isdigit d
        then [(1000 * digit_val a + 100 * digit_val b + 10 * digit_val c + digit_val d, r)] else []
      | _ \<Rightarrow> [])"

text \<open>A literal character of the format.\<close>

definition re_lit :: "char \<Rightarrow> string \<Rightarrow> string list" where
  "re_lit c s = (case s of a # r \<Rightarrow> if a = c then [r] else [] | [] \<Rightarrow> [])"

text \<open>
  The formats of the service: \<open>DMY sep\<close> is \<open>%d<sep>%m<sep>%Y\<close> and \<open>YMD sep\<close> is
  \<open>%Y<sep>%m<sep>%d\<close>, for a separator that the format takes literally.
\<close>

datatype date_format = DMY char | YMD char

fun format_regex :: "date_format \<Rightarrow> string \<Rightarrow> (pydate \<times> string) list" where
  "format_regex (DMY sep) s =
     do { (d, r1) \<leftarrow> re_d s; r2 \<leftarrow> re_lit sep r1; (m, r3) \<leftarrow> re_m r2;
          r4 \<leftarrow> re_lit sep r3; (y, r5) \<leftarrow> re_Y r4; [(Date y m d, r5)] }"
| "format_regex (YMD sep) s =
     do { (y, r1) \<leftarrow> re_Y s; r2 \<leftarrow> re_lit sep r1; (m, r3) \<leftarrow> re_m r2;
          r4 \<leftarrow> re_lit sep r3; (d, r5) \<leftarrow> re_d r4; [(Date y m d, r5)] }"

text \<open>
  \<open>datetime.strptime(data_string, format)\<close>: ValueError when the expression does not
  match, when text remains after the first match, or when the fields are not a date of
  the years 1 to 9999.
\<close>

definition strptime :: "string \<Rightarrow> date_format \<Rightarrow> exn + pydate" where
  "strptime data_string fmt =
     (case format_regex fmt data_string of
        [] \<Rightarrow> Inl ValueError
      | (Date y m d, rest) # _ \<Rightarrow>
          if rest \<noteq> [] then Inl ValueError
          else if 1 \<le> y \<and> y \<le> 9999 \<and> 1 \<le> m \<and> m \<le> 12 \<and> 1 \<le> d \<and> d \<le> days_in_month y m
          then Inr (Date y m d)
          else Inl ValueError)"

definition pad2 :: "nat \<Rightarrow> string" where
  "pad2 n = [digit_char (n div 10 mod 10), digit_char (n mod 10)]"

text \<open>
  \<open>%Y\<close> on output is the platform's: the C library of Linux prints a year below 1000
  without leading zeros, Windows and macOS print four digits. \<open>padded\<close> chooses.
\<close>

definition year_str :: "bool \<Rightarrow> nat \<Rightarrow> string" where
  "year_str padded y =
     (if padded \<or> 1000 \<le> y then
        [digit_char (y div 1000 mod 10), digit_char (y div 100 mod 10), digit_char (y div 10 mod 10), digit_char (y mod 10)]
      else if 100 \<le> y then [digit_char (y div 100), digit_char (y div 10 mod 10), digit_char (y mod 10)]
      else if 10 \<le> y then [digit_char (y div 10), digit_char (y mod 10)]
      else [digit_char y])"

text \<open>\<open>dt.strftime("%Y-%m-%d")\<close>\<close>

fun strftime :: "bool \<Rightarrow> pydate \<Rightarrow> string" where
  "strftime padded (Date y m d) = year_str padded y @ ''-'' @ pad2 m @ ''-'' @ pad2 d"

section \<open>Extraction: dates\<close>

text \<open>
  \<open>InvoiceExtractor._normalize_date\<close>: the first format that parses wins; a text that
  no format parses is returned as it is.
\<close>

definition date_formats :: "date_format list" where
  "date_formats = [DMY CHR ''.'', DMY CHR ''/'', DMY CHR ''-'', YMD CHR ''-'', YMD CHR ''/'']"

fun try_formats :: "bool \<Rightarrow> date_format list \<Rightarrow> string \<Rightarrow> string option" where
  "try_formats padded [] date_str = None"
| "try_formats padded (fmt # fmts) date_str =
     (case strptime date_str fmt of
        Inr dt \<Rightarrow> Some (strftime padded dt)
      | Inl ValueError \<Rightarrow> try_formats padded fmts date_str)"

definition normalize_date :: "bool \<Rightarrow> string \<Rightarrow> string" where
  "normalize_date padded date_str =
     (case try_formats padded date_formats date_str of Some r \<Rightarrow> r | None \<Rightarrow> date_str)"

section \<open>The schema\<close>

record LineItem =
  description :: "string option"
  quantity :: "pyfloat option"
  unit_price :: "pyfloat option"
  line_total :: "pyfloat option"

record Invoice =
  invoice_number :: "string option"
  external_reference :: "string option"
  invoice_date :: "string option"
  due_date :: "string option"
  seller_name :: "string option"
  seller_address :: "string option"
  seller_tax_id :: "string option"
  buyer_name :: "string option"
  buyer_address :: "string option"
  buyer_tax_id :: "string option"
  currency :: "string option"
  net_total :: "pyfloat option"
  tax_amount :: "pyfloat option"
  gross_total :: "pyfloat option"
  tax_rate :: "pyfloat option"
  line_items :: "LineItem list"

text \<open>
  The attributes a rule is built for: the text fields and the amount fields, with the
  attribute names the error codes print and \<open>getattr\<close> on each kind.
\<close>

datatype str_field =
  Invoice_number | External_reference | Invoice_date | Due_date | Seller_name | Seller_address
  | Seller_tax_id | Buyer_name | Buyer_address | Buyer_tax_id | Currency

datatype num_field = Net_total | Tax_amount | Gross_total | Tax_rate

fun str_field_name :: "str_field \<Rightarrow> string" where
  "str_field_name Invoice_number = ''invoice_number''"
| "str_field_name External_reference = ''external_reference''"
| "str_field_name Invoice_date = ''invoice_date''"
| "str_field_name Due_date = ''due_date''"
| "str_field_name Seller_name = ''seller_name''"
| "str_field_name Seller_address = ''seller_address''"
| "str_field_name Seller_tax_id = ''seller_tax_id''"
| "str_field_name Buyer_name = ''buyer_name''"
| "str_field_name Buyer_address = ''buyer_address''"
| "str_field_name Buyer_tax_id = ''buyer_tax_id''"
| "str_field_name Currency = ''currency''"

fun num_field_name :: "num_field \<Rightarrow> string" where
  "num_field_name Net_total = ''net_total''"
| "num_field_name Tax_amount = ''tax_amount''"
| "num_field_name Gross_total = ''gross_total''"
| "num_field_name Tax_rate = ''tax_rate''"

fun getattr_str :: "Invoice \<Rightarrow> str_field \<Rightarrow> string option" where
  "getattr_str invoice Invoice_number = invoice_number invoice"
| "getattr_str invoice External_reference = external_reference invoice"
| "getattr_str invoice Invoice_date = invoice_date invoice"
| "getattr_str invoice Due_date = due_date invoice"
| "getattr_str invoice Seller_name = seller_name invoice"
| "getattr_str invoice Seller_address = seller_address invoice"
| "getattr_str invoice Seller_tax_id = seller_tax_id invoice"
| "getattr_str invoice Buyer_name = buyer_name invoice"
| "getattr_str invoice Buyer_address = buyer_address invoice"
| "getattr_str invoice Buyer_tax_id = buyer_tax_id invoice"
| "getattr_str invoice Currency = currency invoice"

fun getattr_num :: "Invoice \<Rightarrow> num_field \<Rightarrow> pyfloat option" where
  "getattr_num invoice Net_total = net_total invoice"
| "getattr_num invoice Tax_amount = tax_amount invoice"
| "getattr_num invoice Gross_total = gross_total invoice"
| "getattr_num invoice Tax_rate = tax_rate invoice"

section \<open>Validation rules\<close>

text \<open>
  What the rules take from the Python runtime: the year of \<open>datetime.now()\<close>, the text
  an f-string prints for a float, and the builtin \<open>sum\<close> over a non-empty list of
  floats (an exact left-to-right sum up to CPython 3.11, a compensated one since 3.12).
\<close>

record runtime =
  now_year :: int
  float_repr :: "pyfloat \<Rightarrow> string"
  float_sum :: "pyfloat list \<Rightarrow> pyfloat"

text \<open>\<open>CompletenessRule.validate\<close>, for a text attribute.\<close>

definition CompletenessRule_validate :: "str_field \<Rightarrow> Invoice \<Rightarrow> string option" where
  "CompletenessRule_validate field_name invoice =
     (case getattr_str invoice field_name of
        None \<Rightarrow> Some (''missing_field: '' @ str_field_name field_name)
      | Some v \<Rightarrow>
          if v = [] \<or> strip v = [] then Some (''missing_field: '' @ str_field_name field_name)
          else None)"

text \<open>\<open>DateFormatRule.validate\<close>\<close>

definition DateFormatRule_validate :: "runtime \<Rightarrow> str_field \<Rightarrow> Invoice \<Rightarrow> string option" where
  "DateFormatRule_validate rt field_name invoice =
     (case getattr_str invoice field_name of
        None \<Rightarrow> None
      | Some v \<Rightarrow>
          if v = [] then None
          else (case strptime v (YMD CHR ''-'') of
                  Inl ValueError \<Rightarrow> Some (''invalid_date_format: '' @ str_field_name field_name)
                | Inr (Date y m d) \<Rightarrow>
                    if int y < now_year rt - 50 \<or> int y > now_year rt + 10
                    then Some (''date_out_of_range: '' @ str_field_name field_name)
                    else None))"

text \<open>\<open>CurrencyRule.validate\<close>\<close>

definition ALLOWED_CURRENCIES :: "string list" where
  "ALLOWED_CURRENCIES = [''EUR'', ''USD'', ''GBP'', ''INR'', ''CHF'', ''JPY'', ''AUD'', ''CAD'']"

definition CurrencyRule_validate :: "Invoice \<Rightarrow> string option" where
  "CurrencyRule_validate invoice =
     (case currency invoice of
        None \<Rightarrow> None
      | Some c \<Rightarrow>
          if c = [] then None
          else if upper c \<notin> set ALLOWED_CURRENCIES then Some (''invalid_currency: '' @ c)
          else None)"

text \<open>\<open>AmountSignRule.validate\<close>\<close>

definition AmountSignRule_validate :: "num_field \<Rightarrow> Invoice \<Rightarrow> string option" where
  "AmountSignRule_validate field_name invoice =
     (case getattr_num invoice field_name of
        None \<Rightarrow> None
      | Some v \<Rightarrow>
          if float_lt v float_zero then Some (''negative_amount: '' @ num_field_name field_name)
          else None)"

text \<open>\<open>TotalConsistencyRule.validate\<close>\<close>

definition TotalConsistencyRule_validate :: "runtime \<Rightarrow> Invoice \<Rightarrow> string option" where
  "TotalConsistencyRule_validate rt invoice =
     (case (net_total invoice, tax_amount invoice, gross_total invoice) of
        (Some net, Some tax, Some gross) \<Rightarrow>
          let expected_gross = round2 (float_add net tax);
              actual_gross = round2 gross
          in if float_gt (float_abs (float_sub expected_gross actual_gross)) float_0_01
             then Some (''business_rule_failed: totals_mismatch (expected '' @ float_repr rt expected_gross
                        @ '', got '' @ float_repr rt actual_gross @ '')'')
             else None
      | _ \<Rightarrow> None)"

text \<open>\<open>DueDateRule.validate\<close>: a ValueError of either \<open>strptime\<close> is swallowed.\<close>

definition DueDateRule_validate :: "Invoice \<Rightarrow> string option" where
  "DueDateRule_validate invoice =
     (if truthy (invoice_date invoice) \<and> truthy (due_date invoice) then
        case strptime (the (invoice_date invoice)) (YMD CHR ''-'') of
          Inl ValueError \<Rightarrow> None
        | Inr inv_date \<Rightarrow>
            (case strptime (the (due_date invoice)) (YMD CHR ''-'') of
               Inl ValueError \<Rightarrow> None
             | Inr due \<Rightarrow>
                 if date_lt due inv_date then Some ''business_rule_failed: due_date_before_invoice_date''
                 else None)
      else None)"

text \<open>
  \<open>LineItemsConsistencyRule.validate\<close>. With no line total present \<open>sum\<close> returns the
  integer 0, which fails the test \<open>items_sum > 0\<close>.
\<close>

definition LineItemsConsistencyRule_validate :: "runtime \<Rightarrow> Invoice \<Rightarrow> string option" where
  "LineItemsConsistencyRule_validate rt invoice =
     (case net_total invoice of
        None \<Rightarrow> None
      | Some net \<Rightarrow>
          if line_items invoice = [] then None
          else
            let totals = map the (filter (\<lambda>t. t \<noteq> None) (map line_total (line_items invoice))) in
            if totals = [] then None
            else
              let items_sum = float_sum rt totals in
              if float_gt items_sum float_zero \<and> float_gt (float_abs (float_sub items_sum net)) float_0_01
              then Some (''business_rule_failed: line_items_sum_mismatch (items sum '' @ float_repr rt items_sum
                         @ '', net total '' @ float_repr rt net @ '')'')
              else None)"

text \<open>
  \<open>TaxIDFormatRule.validate\<close>: \<open>re.match(r"^[A-Z]{2}\d{9,12}$", value)\<close>, where \<open>$\<close>
  also matches before a newline that ends the text.
\<close>

definition tax_id_match :: "string \<Rightarrow> bool" where
  "tax_id_match v =
     (let body = (if v \<noteq> [] \<and> last v = CHR 0x0A then butlast v else v) in
      11 \<le> length body \<and> length body \<le> 14 \<and>
      list_all (in_range CHR ''A'' CHR ''Z'') (take 2 body) \<and> list_all isdigit (drop 2 body))"

definition TaxIDFormatRule_validate :: "str_field \<Rightarrow> Invoice \<Rightarrow> string option" where
  "TaxIDFormatRule_validate field_name invoice =
     (case getattr_str invoice field_name of
        None \<Rightarrow> None
      | Some v \<Rightarrow>
          if v = [] then None
          else if \<not> tax_id_match v then Some (''invalid_tax_id_format: '' @ str_field_name field_name)
          else None)"

text \<open>\<open>PartyNamesRule.validate\<close>\<close>

definition PartyNamesRule_validate :: "Invoice \<Rightarrow> string option" where
  "PartyNamesRule_validate invoice =
     (if truthy (seller_name invoice) \<and> truthy (buyer_name invoice) \<and>
         strip (lower (the (seller_name invoice))) = strip (lower (the (buyer_name invoice)))
      then Some ''business_rule_failed: seller_and_buyer_same''
      else None)"

section \<open>The validator\<close>

text \<open>The rule classes with their constructor arguments, and the method each one runs.\<close>

datatype ValidationRule =
  CompletenessRule str_field
  | DateFormatRule str_field
  | CurrencyRule
  | AmountSignRule num_field
  | TotalConsistencyRule
  | DueDateRule
  | LineItemsConsistencyRule
  | TaxIDFormatRule str_field
  | PartyNamesRule

fun validate :: "runtime \<Rightarrow> ValidationRule \<Rightarrow> Invoice \<Rightarrow> string option" where
  "validate rt (CompletenessRule f) invoice = CompletenessRule_validate f invoice"
| "validate rt (DateFormatRule f) invoice = DateFormatRule_validate rt f invoice"
| "validate rt CurrencyRule invoice = CurrencyRule_validate invoice"
| "validate rt (AmountSignRule f) invoice = AmountSignRule_validate f invoice"
| "validate rt TotalConsistencyRule invoice = TotalConsistencyRule_validate rt invoice"
| "validate rt DueDateRule invoice = DueDateRule_validate invoice"
| "validate rt LineItemsConsistencyRule invoice = LineItemsConsistencyRule_validate rt invoice"
| "validate rt (TaxIDFormatRule f) invoice = TaxIDFormatRule_validate f invoice"
| "validate rt PartyNamesRule invoice = PartyNamesRule_validate invoice"

text \<open>\<open>InvoiceValidator.__init__\<close>: the active rules, in order.\<close>

definition rules :: "ValidationRule list" where
  "rules =
     [CompletenessRule Invoice_number, CompletenessRule Invoice_date,
      CompletenessRule Seller_name, CompletenessRule Buyer_name,
      DateFormatRule Invoice_date, DateFormatRule Due_date,
      CurrencyRule,
      AmountSignRule Net_total, AmountSignRule Tax_amount, AmountSignRule Gross_total,
      TotalConsistencyRule, DueDateRule, LineItemsConsistencyRule, PartyNamesRule]"

record ValidationResult =
  invoice_id :: string
  is_valid :: bool
  errors :: "string list"

text \<open>The loop of \<open>validate_invoice\<close>: a truthy result of a rule is appended.\<close>

fun run_rules :: "runtime \<Rightarrow> ValidationRule list \<Rightarrow> Invoice \<Rightarrow> string list \<Rightarrow> string list" where
  "run_rules rt [] invoice errs = errs"
| "run_rules rt (rule # rest) invoice errs =
     (case validate rt rule invoice of
        None \<Rightarrow> run_rules rt rest invoice errs
      | Some error \<Rightarrow> run_rules rt rest invoice (if error \<noteq> [] then errs @ [error] else errs))"

text \<open>\<open>InvoiceValidator.validate_invoice\<close>\<close>

definition validate_invoice :: "runtime \<Rightarrow> Invoice \<Rightarrow> ValidationResult" where
  "validate_invoice rt invoice =
     (let errs = run_rules rt rules invoice [];
          ident = (if truthy (invoice_number invoice) then the (invoice_number invoice) else ''UNKNOWN'')
      in \<lparr>invoice_id = ident, is_valid = (length errs = 0), errors = errs\<rparr>)"

text \<open>
  \<open>error_counts\<close>: a dictionary from error code to count, as the list of its items in
  insertion order. \<open>count_error\<close> is \<open>error_counts[error] += 1\<close> on a \<open>defaultdict(int)\<close>.
\<close>

fun count_error :: "string \<Rightarrow> (string \<times> int) list \<Rightarrow> (string \<times> int) list" where
  "count_error e [] = [(e, 1)]"
| "count_error e ((k, n) # kvs) = (if k = e then (k, n + 1) # kvs else (k, n) # count_error e kvs)"

record ValidationSummary =
  total_invoices :: int
  valid_invoices :: int
  invalid_invoices :: int
  error_counts :: "(string \<times> int) list"
  results :: "ValidationResult list"

text \<open>The loop of \<open>validate_invoices\<close> over the batch, with its two accumulators.\<close>

fun validate_loop ::
  "runtime \<Rightarrow> Invoice list \<Rightarrow> ValidationResult list \<Rightarrow> (string \<times> int) list
   \<Rightarrow> ValidationResult list \<times> (string \<times> int) list" where
  "validate_loop rt [] res counts = (res, counts)"
| "validate_loop rt (invoice # rest) res counts =
     (let result = validate_invoice rt invoice in
      validate_loop rt rest (res @ [result]) (foldl (\<lambda>c e. count_error e c) counts (errors result)))"

text \<open>\<open>InvoiceValidator.validate_invoices\<close>\<close>

definition validate_invoices :: "runtime \<Rightarrow> Invoice list \<Rightarrow> ValidationSummary" where
  "validate_invoices rt invoices =
     (let (res, counts) = validate_loop rt invoices [] [];
          valid_count = int (length (filter is_valid res));
          invalid_count = int (length res) - valid_count
      in \<lparr>total_invoices = int (length invoices), valid_invoices = valid_count,
          invalid_invoices = invalid_count, error_counts = counts, results = res\<rparr>)"

section \<open>The HTTP adapter\<close>

text \<open>
  \<open>validate_json\<close> of \<open>api.py\<close>: an empty request body is refused with status 400
  before the validator runs; otherwise every request object is copied field by field
  into an \<open>Invoice\<close> (the request models have the fields of the schema) and the batch is
  validated.
\<close>

datatype http_error = HTTPException nat string

definition validate_json :: "runtime \<Rightarrow> Invoice list \<Rightarrow> http_error + ValidationSummary" where
  "validate_json rt invoices =
     (if invoices = [] then Inl (HTTPException 400 ''Empty invoice list'')
      else Inr (validate_invoices rt invoices))"

section \<open>Example inputs\<close>

text \<open>\<open>Invoice()\<close>: every attribute unset, no line items.\<close>

definition empty_invoice :: Invoice where
  "empty_invoice =
     \<lparr>invoice_number = None, external_reference = None, invoice_date = None, due_date = None,
      seller_name = None, seller_address = None, seller_tax_id = None,
      buyer_name = None, buyer_address = None, buyer_tax_id = None,
      currency = None, net_total = None, tax_amount = None, gross_total = None, tax_rate = None,
      line_items = []\<rparr>"

text \<open>
  A runtime for the examples: the year 2024, the left-to-right sum, and a placeholder
  for the text of a printed float.
\<close>

definition example_runtime :: runtime where
  "example_runtime =
     \<lparr>now_year = 2024, float_repr = (\<lambda>x. ''<float>''), float_sum = foldl float_add float_zero\<rparr>"

text \<open>The invoice of the end-to-end example.\<close>

definition example_invoice :: Invoice where
  "example_invoice =
     empty_invoice\<lparr>invoice_number := Some ''INV-1'', invoice_date := Some ''2024-01-10'',
       due_date := Some ''2024-01-05'', seller_name := Some ''Acme'', buyer_name := Some ''Acme''\<rparr>"

text \<open>The float a decimal literal denotes, as \<open>float\<close> reads it.\<close>

definition float_lit :: "string \<Rightarrow> pyfloat" where
  "float_lit s = (case float_of_str s of Inr x \<Rightarrow> x | Inl ValueError \<Rightarrow> NaN)"

text \<open>An invoice with only its three totals set, each given by its decimal text.\<close>

definition totals_invoice :: "string \<Rightarrow> string \<Rightarrow> string \<Rightarrow> Invoice" where
  "totals_invoice net tax gross =
     empty_invoice\<lparr>net_total := Some (float_lit net), tax_amount := Some (float_lit tax),
       gross_total := Some (float_lit gross)\<rparr>"

section \<open>Properties of the validator\<close>

subsection \<open>Batches\<close>

lemma validate_loop_fst:
  "fst (validate_loop rt invoices res counts) = res @ map (validate_invoice rt) invoices"
  by (induction invoices arbitrary: res counts) (simp_all add: Let_def)

lemma results_validate_invoices:
  "results (validate_invoices rt invoices) = map (validate_invoice rt) invoices"
  using validate_loop_fst [of rt invoices "[]" "[]"]
  by (auto simp: validate_invoices_def Let_def split: prod.splits)

text \<open>
  Claim C10. For every list of invoices, the summary of \<open>validate_invoices\<close> holds one
  result per invoice, in input order: the result at position \<open>i\<close> is the result of
  validating the invoice at position \<open>i\<close>. \<open>total_invoices\<close> is the length of the
  input, and the valid and invalid counts add up to it.
\<close>

theorem validate_invoices_order_and_counts:
  "results (validate_invoices rt invoices) = map (validate_invoice rt) invoices
   \<and> length (results (validate_invoices rt invoices)) = length invoices
   \<and> (\<forall>i < length invoices.
         results (validate_invoices rt invoices) ! i = validate_invoice rt (invoices ! i))
   \<and> total_invoices (validate_invoices rt invoices) = int (length invoices)
   \<and> valid_invoices (validate_invoices rt invoices) + invalid_invoices (validate_invoices rt invoices)
       = total_invoices (validate_invoices rt invoices)"
proof -
  have r: "results (validate_invoices rt invoices) = map (validate_invoice rt) invoices"
    by (rule results_validate_invoices)
  have l: "length (fst (validate_loop rt invoices [] [])) = length invoices"
    by (simp add: validate_loop_fst)
  have t: "total_invoices (validate_invoices rt invoices) = int (length invoices)"
    by (simp add: validate_invoices_def Let_def split: prod.splits)
  have c: "valid_invoices (validate_invoices rt invoices) + invalid_invoices (validate_invoices rt invoices)
       = int (length invoices)"
    using l by (auto simp: validate_invoices_def Let_def split: prod.splits)
  show ?thesis using r t c by simp
qed

theorem validate_invoices_order_and_counts_witness:
  "results (validate_invoices example_runtime [example_invoice, empty_invoice]) ! 1
     = validate_invoice example_runtime empty_invoice
   \<and> total_invoices (validate_invoices example_runtime [example_invoice, empty_invoice]) = 2
   \<and> valid_invoices (validate_invoices example_runtime [example_invoice, empty_invoice])
       + invalid_invoices (validate_invoices example_runtime [example_invoice, empty_invoice]) = 2"
  using validate_invoices_order_and_counts [of example_runtime "[example_invoice, empty_invoice]"]
  by simp

subsection \<open>The identity of an invoice\<close>

text \<open>
  Claim C6, as the code has it. The \<open>invoice_id\<close> of a result is the invoice's
  \<open>invoice_number\<close> when that is present and not empty, and the placeholder
  \<open>UNKNOWN\<close> when it is absent or the empty string.
\<close>

theorem invoice_id_of_validate_invoice:
  "invoice_id (validate_invoice rt invoice) =
     (case invoice_number invoice of
        None \<Rightarrow> ''UNKNOWN''
      | Some n \<Rightarrow> if n = [] then ''UNKNOWN'' else n)"
  by (simp add: validate_invoice_def Let_def split: option.splits)

theorem invoice_id_of_validate_invoice_witness:
  "invoice_id (validate_invoice example_runtime example_invoice) = ''INV-1''
   \<and> invoice_id (validate_invoice example_runtime empty_invoice) = ''UNKNOWN''"
  using invoice_id_of_validate_invoice [of example_runtime example_invoice]
    invoice_id_of_validate_invoice [of example_runtime empty_invoice]
  by (simp add: example_invoice_def empty_invoice_def)

text \<open>
  The claim as stated fails: an invoice whose \<open>invoice_number\<close> is present and equal to
  the empty string is reported as \<open>UNKNOWN\<close>.
\<close>

theorem empty_invoice_number_counterexample:
  "invoice_number (empty_invoice\<lparr>invoice_number := Some ''''\<rparr>) = Some ''''
   \<and> invoice_id (validate_invoice example_runtime (empty_invoice\<lparr>invoice_number := Some ''''\<rparr>))
       = ''UNKNOWN''"
  by (simp add: validate_invoice_def Let_def)

subsection \<open>The empty batch\<close>

text \<open>
  Claim C5, as the code has it. \<open>validate_invoices\<close> applied to the empty list returns
  the ordinary summary with zero counts, no error counts and no results; the refusal of
  an empty batch is the HTTP adapter's, whose \<open>validate_json\<close> answers an empty list
  with status 400 before the validator runs.
\<close>

theorem empty_batch_refused_by_adapter_only:
  "validate_invoices rt [] =
     \<lparr>total_invoices = 0, valid_invoices = 0, invalid_invoices = 0, error_counts = [], results = []\<rparr>
   \<and> validate_json rt [] = Inl (HTTPException 400 ''Empty invoice list'')"
  by (simp add: validate_invoices_def validate_json_def)

text \<open>The claim as stated fails: the validator itself returns a summary for the empty list.\<close>

theorem empty_batch_counterexample:
  "validate_invoices example_runtime [] =
     \<lparr>total_invoices = 0, valid_invoices = 0, invalid_invoices = 0, error_counts = [], results = []\<rparr>"
  by (simp add: validate_invoices_def)

subsection \<open>The error codes of the active rules\<close>

lemma run_rules_subset:
  "set (run_rules rt rs invoice errs)
     \<subseteq> set errs \<union> {e. \<exists>r \<in> set rs. validate rt r invoice = Some e}"
proof (induction rs arbitrary: errs)
  case Nil
  show ?case by simp
next
  case (Cons r rs)
  show ?case
  proof (cases "validate rt r invoice")
    case None
    then show ?thesis using Cons.IH [of errs] by auto
  next
    case (Some e)
    then show ?thesis
      using Cons.IH [of "errs @ [e]"] Cons.IH [of errs] by (auto split: if_splits)
  qed
qed

lemma validate_no_tax_id_code:
  assumes "validate rt r invoice = Some e" and "\<forall>f. r \<noteq> TaxIDFormatRule f"
  shows "e \<noteq> ''invalid_tax_id_format: '' @ x"
proof (cases r)
  case (CompletenessRule f)
  with assms show ?thesis
    by (auto simp: CompletenessRule_validate_def split: option.splits if_splits)
next
  case (DateFormatRule f)
  with assms show ?thesis
    by (auto simp: DateFormatRule_validate_def
        split: option.splits if_splits sum.splits exn.splits pydate.splits)
next
  case CurrencyRule
  with assms show ?thesis
    by (auto simp: CurrencyRule_validate_def split: option.splits if_splits)
next
  case (AmountSignRule f)
  with assms show ?thesis
    by (auto simp: AmountSignRule_validate_def split: option.splits if_splits)
next
  case TotalConsistencyRule
  with assms show ?thesis
    by (auto simp: TotalConsistencyRule_validate_def Let_def split: option.splits if_splits)
next
  case DueDateRule
  with assms show ?thesis
    by (auto simp: DueDateRule_validate_def split: option.splits if_splits sum.splits exn.splits)
next
  case LineItemsConsistencyRule
  with assms show ?thesis
    by (auto simp: LineItemsConsistencyRule_validate_def Let_def split: option.splits if_splits)
next
  case (TaxIDFormatRule f)
  with assms show ?thesis by simp
next
  case PartyNamesRule
  with assms show ?thesis
    by (auto simp: PartyNamesRule_validate_def split: option.splits if_splits)
qed

text \<open>
  Claim C7. For every invoice, no error of the default validator's \<open>validate_invoice\<close>
  is a code \<open>invalid_tax_id_format: <field>\<close>, whatever the field text: the rule
  class \<open>TaxIDFormatRule\<close> exists, but no instance of it is in the active rule list.
\<close>

theorem default_rules_emit_no_tax_id_error:
  "(\<forall>e \<in> set (errors (validate_invoice rt invoice)). \<forall>x. e \<noteq> ''invalid_tax_id_format: '' @ x)
   \<and> (\<forall>f. TaxIDFormatRule f \<notin> set rules)"
proof -
  have nr: "\<forall>f. TaxIDFormatRule f \<notin> set rules"
    by (simp add: rules_def)
  have "\<forall>e \<in> set (run_rules rt rules invoice []). \<forall>x. e \<noteq> ''invalid_tax_id_format: '' @ x"
  proof (intro ballI allI)
    fix e x
    assume "e \<in> set (run_rules rt rules invoice [])"
    with run_rules_subset [of rt rules invoice "[]"]
    obtain r where r: "r \<in> set rules" "validate rt r invoice = Some e" by auto
    from r(1) nr have "\<forall>f. r \<noteq> TaxIDFormatRule f" by auto
    with r(2) show "e \<noteq> ''invalid_tax_id_format: '' @ x"
      by (rule validate_no_tax_id_code)
  qed
  then show ?thesis using nr by (simp add: validate_invoice_def Let_def)
qed

text \<open>
  At an invoice whose seller tax id is malformed: the rule, run by hand, reports it, and
  the validator's errors do not contain the code.
\<close>

theorem default_rules_emit_no_tax_id_error_witness:
  "TaxIDFormatRule_validate Seller_tax_id (example_invoice\<lparr>seller_tax_id := Some ''X1''\<rparr>)
     = Some ''invalid_tax_id_format: seller_tax_id''
   \<and> ''invalid_tax_id_format: seller_tax_id''
       \<notin> set (errors (validate_invoice example_runtime (example_invoice\<lparr>seller_tax_id := Some ''X1''\<rparr>)))"
proof -
  have "TaxIDFormatRule_validate Seller_tax_id (example_invoice\<lparr>seller_tax_id := Some ''X1''\<rparr>)
     = Some ''invalid_tax_id_format: seller_tax_id''"
    by (simp add: TaxIDFormatRule_validate_def tax_id_match_def)
  moreover have "''invalid_tax_id_format: seller_tax_id''
       \<notin> set (errors (validate_invoice example_runtime (example_invoice\<lparr>seller_tax_id := Some ''X1''\<rparr>)))"
    using default_rules_emit_no_tax_id_error
      [of example_runtime "example_invoice\<lparr>seller_tax_id := Some ''X1''\<rparr>"]
    by auto
  ultimately show ?thesis by simp
qed

subsection \<open>The due date\<close>

lemma date_lt_irrefl: "\<not> date_lt d d"
  by (cases d) simp

text \<open>
  Claim C8. For every invoice with both \<open>invoice_date\<close> and \<open>due_date\<close> set,
  \<open>DueDateRule.validate\<close> returns \<open>business_rule_failed: due_date_before_invoice_date\<close>
  exactly when both texts parse under \<open>%Y-%m-%d\<close> and the due date is strictly before
  the invoice date. It returns that code or nothing; equal dates give nothing, and a
  date that does not parse gives nothing.
\<close>

theorem DueDateRule_characterised:
  assumes "invoice_date invoice = Some a" and "due_date invoice = Some b"
  shows "((DueDateRule_validate invoice = Some ''business_rule_failed: due_date_before_invoice_date'')
            = (\<exists>inv_date due. strptime a (YMD CHR ''-'') = Inr inv_date
                 \<and> strptime b (YMD CHR ''-'') = Inr due \<and> date_lt due inv_date))
         \<and> (DueDateRule_validate invoice = None
              \<or> DueDateRule_validate invoice = Some ''business_rule_failed: due_date_before_invoice_date'')
         \<and> (a = b \<longrightarrow> DueDateRule_validate invoice = None)
         \<and> (strptime a (YMD CHR ''-'') = Inl ValueError \<or> strptime b (YMD CHR ''-'') = Inl ValueError
              \<longrightarrow> DueDateRule_validate invoice = None)"
proof -
  have e: "strptime [] (YMD CHR ''-'') = Inl ValueError"
    by (simp add: strptime_def re_Y_def)
  have 1: "(DueDateRule_validate invoice = Some ''business_rule_failed: due_date_before_invoice_date'')
           = (\<exists>inv_date due. strptime a (YMD CHR ''-'') = Inr inv_date
                \<and> strptime b (YMD CHR ''-'') = Inr due \<and> date_lt due inv_date)"
    using assms e by (auto simp: DueDateRule_validate_def split: sum.splits exn.splits)
  have 2: "DueDateRule_validate invoice = None
           \<or> DueDateRule_validate invoice = Some ''business_rule_failed: due_date_before_invoice_date''"
    by (auto simp: DueDateRule_validate_def split: sum.splits exn.splits)
  have 3: "a = b \<longrightarrow> DueDateRule_validate invoice = None"
    using assms by (auto simp: DueDateRule_validate_def date_lt_irrefl split: sum.splits exn.splits)
  have 4: "strptime a (YMD CHR ''-'') = Inl ValueError \<or> strptime b (YMD CHR ''-'') = Inl ValueError
           \<longrightarrow> DueDateRule_validate invoice = None"
    using assms by (auto simp: DueDateRule_validate_def split: sum.splits exn.splits)
  show ?thesis using 1 2 3 4 by blast
qed

lemma strptime_2024_01_10: "strptime ''2024-01-10'' (YMD CHR ''-'') = Inr (Date 2024 1 10)"
  by code_simp

lemma strptime_2024_01_05: "strptime ''2024-01-05'' (YMD CHR ''-'') = Inr (Date 2024 1 5)"
  by code_simp

lemma strptime_2024_13_05: "strptime ''2024-13-05'' (YMD CHR ''-'') = Inl ValueError"
  by code_simp

text \<open>
  At the example invoice (invoice date 2024-01-10, due date 2024-01-05) the rule
  reports; with the due date moved to the invoice date, or made unparseable, it is
  silent.
\<close>

theorem DueDateRule_characterised_witness:
  "invoice_date example_invoice = Some ''2024-01-10'' \<and> due_date example_invoice = Some ''2024-01-05''
   \<and> DueDateRule_validate example_invoice = Some ''business_rule_failed: due_date_before_invoice_date''
   \<and> DueDateRule_validate (example_invoice\<lparr>due_date := Some ''2024-01-10''\<rparr>) = None
   \<and> DueDateRule_validate (example_invoice\<lparr>due_date := Some ''2024-13-05''\<rparr>) = None"
proof -
  have a: "invoice_date example_invoice = Some ''2024-01-10''"
    and b: "due_date example_invoice = Some ''2024-01-05''"
    by (simp_all add: example_invoice_def)
  have a': "invoice_date (example_invoice\<lparr>due_date := Some d\<rparr>) = Some ''2024-01-10''"
    and b': "due_date (example_invoice\<lparr>due_date := Some d\<rparr>) = Some d" for d
    by (simp_all add: example_invoice_def)
  have "date_lt (Date 2024 1 5) (Date 2024 1 10)" by simp
  then have 1: "DueDateRule_validate example_invoice
      = Some ''business_rule_failed: due_date_before_invoice_date''"
    using DueDateRule_characterised [OF a b] strptime_2024_01_10 strptime_2024_01_05 by blast
  have 2: "DueDateRule_validate (example_invoice\<lparr>due_date := Some ''2024-01-10''\<rparr>) = None"
    using DueDateRule_characterised [OF a' b', of "''2024-01-10''"] by blast
  have 3: "DueDateRule_validate (example_invoice\<lparr>due_date := Some ''2024-13-05''\<rparr>) = None"
    using DueDateRule_characterised [OF a' b', of "''2024-13-05''"] strptime_2024_13_05 by blast
  show ?thesis using a b 1 2 3 by simp
qed

subsection \<open>The end-to-end example\<close>

lemma strip_lower_Acme: "strip (lower ''Acme'') = ''acme''"
  by code_simp

lemma strip_example_texts: "strip ''INV-1'' \<noteq> []" "strip ''2024-01-10'' \<noteq> []" "strip ''Acme'' \<noteq> []"
  by code_simp+

lemma example_rules:
  "CompletenessRule_validate Invoice_number example_invoice = None"
  "CompletenessRule_validate Invoice_date example_invoice = None"
  "CompletenessRule_validate Seller_name example_invoice = None"
  "CompletenessRule_validate Buyer_name example_invoice = None"
  "CurrencyRule_validate example_invoice = None"
  "AmountSignRule_validate f example_invoice = None"
  "TotalConsistencyRule_validate rt example_invoice = None"
  "LineItemsConsistencyRule_validate rt example_invoice = None"
  "DueDateRule_validate example_invoice = Some ''business_rule_failed: due_date_before_invoice_date''"
  "PartyNamesRule_validate example_invoice = Some ''business_rule_failed: seller_and_buyer_same''"
  "DateFormatRule_validate rt Due_date example_invoice =
     (if 2024 < now_year rt - 50 \<or> 2024 > now_year rt + 10 then Some ''date_out_of_range: due_date'' else None)"
  "DateFormatRule_validate rt Invoice_date example_invoice =
     (if 2024 < now_year rt - 50 \<or> 2024 > now_year rt + 10 then Some ''date_out_of_range: invoice_date'' else None)"
  by (cases f; simp add: example_invoice_def empty_invoice_def CompletenessRule_validate_def
      CurrencyRule_validate_def AmountSignRule_validate_def TotalConsistencyRule_validate_def
      LineItemsConsistencyRule_validate_def DueDateRule_validate_def PartyNamesRule_validate_def
      DateFormatRule_validate_def strptime_2024_01_10 strptime_2024_01_05 strip_lower_Acme
      strip_example_texts)+

lemma example_errors:
  "errors (validate_invoice rt example_invoice) =
     (if 2024 < now_year rt - 50 \<or> 2024 > now_year rt + 10
      then [''date_out_of_range: invoice_date'', ''date_out_of_range: due_date''] else [])
     @ [''business_rule_failed: due_date_before_invoice_date'', ''business_rule_failed: seller_and_buyer_same'']"
  by (simp add: validate_invoice_def rules_def example_rules Let_def)

text \<open>
  Claim C4. Validating the batch that holds only the invoice with number \<open>INV-1\<close>,
  invoice date 2024-01-10, due date 2024-01-05 and the name \<open>Acme\<close> for both seller and
  buyer (everything else unset) gives one result, which is not valid and whose errors
  contain both \<open>business_rule_failed: due_date_before_invoice_date\<close> and
  \<open>business_rule_failed: seller_and_buyer_same\<close>. This holds in every year; in the
  years 2014 to 2074 these two are all the errors.
\<close>

theorem end_to_end_example:
  "results (validate_invoices rt [example_invoice]) = [validate_invoice rt example_invoice]
   \<and> is_valid (validate_invoice rt example_invoice) = False
   \<and> ''business_rule_failed: due_date_before_invoice_date''
       \<in> set (errors (validate_invoice rt example_invoice))
   \<and> ''business_rule_failed: seller_and_buyer_same''
       \<in> set (errors (validate_invoice rt example_invoice))
   \<and> errors (validate_invoice example_runtime example_invoice)
       = [''business_rule_failed: due_date_before_invoice_date'',
          ''business_rule_failed: seller_and_buyer_same'']"
proof -
  have r: "results (validate_invoices rt [example_invoice]) = [validate_invoice rt example_invoice]"
    by (simp add: results_validate_invoices)
  have "errors (validate_invoice rt example_invoice) \<noteq> []"
    by (simp add: example_errors)
  then have v: "is_valid (validate_invoice rt example_invoice) = False"
    by (simp add: validate_invoice_def Let_def)
  have e: "errors (validate_invoice example_runtime example_invoice)
       = [''business_rule_failed: due_date_before_invoice_date'',
          ''business_rule_failed: seller_and_buyer_same'']"
    by (simp add: example_errors example_runtime_def)
  show ?thesis using r v e by (simp add: example_errors)
qed

section \<open>Properties of the amount parser\<close>

subsection \<open>\<open>rfind\<close>, \<open>replace\<close> and \<open>strip\<close>\<close>

lemma rfind_from_absent: "c \<notin> set s \<Longrightarrow> rfind_from c s i found = found"
  by (induction s arbitrary: i found) auto

lemma rfind_from_last:
  "c \<notin> set q \<Longrightarrow> rfind_from c (p @ c # q) i found = i + int (length p)"
  by (induction p arbitrary: i found) (simp_all add: rfind_from_absent)

lemma rfind_from_other:
  "c \<noteq> x \<Longrightarrow> c \<notin> set q \<Longrightarrow> rfind_from c (p @ x # q) i found = rfind_from c p i found"
  by (induction p arbitrary: i found) (simp_all add: rfind_from_absent)

lemma rfind_from_less:
  "found < i \<Longrightarrow> rfind_from c p i found < i + int (length p)"
proof (induction p arbitrary: i found)
  case Nil
  then show ?case by simp
next
  case (Cons x p)
  have "rfind_from c p (i + 1) (if x = c then i else found) < (i + 1) + int (length p)"
    using Cons.prems by (intro Cons.IH) simp
  then show ?case by simp
qed

lemma rfind_last: "c \<notin> set q \<Longrightarrow> rfind c (p @ c # q) = int (length p)"
  by (simp add: rfind_def rfind_from_last)

lemma rfind_before:
  "c \<noteq> x \<Longrightarrow> c \<notin> set q \<Longrightarrow> rfind c (p @ x # q) < int (length p)"
  using rfind_from_less [of "- 1" 0 c p] by (simp add: rfind_def rfind_from_other)

lemma replace_remove: "replace c [] s = filter (\<lambda>x. x \<noteq> c) s"
  by (induction s) (simp_all add: replace_def)

lemma replace_one: "replace c [d] s = map (\<lambda>x. if x = c then d else x) s"
  by (induction s) (simp_all add: replace_def)

lemma not_isspace_separators: "\<not> isspace CHR '',''" "\<not> isspace CHR ''.''"
  by (simp_all add: isspace_def)

lemma filter_dropWhile_disjoint:
  "(\<And>x. P x \<Longrightarrow> \<not> Q x) \<Longrightarrow> filter P (dropWhile Q s) = filter P s"
  by (induction s) auto

lemma filter_strip:
  assumes "\<And>x. P x \<Longrightarrow> \<not> isspace x"
  shows "filter P (strip s) = filter P s"
proof -
  have "filter P (strip s) = rev (filter P (dropWhile isspace (rev (dropWhile isspace s))))"
    by (simp add: strip_def rev_filter)
  also have "\<dots> = rev (filter P (rev (dropWhile isspace s)))"
    using assms by (simp add: filter_dropWhile_disjoint)
  also have "\<dots> = filter P (dropWhile isspace s)"
    by (simp add: rev_filter)
  also have "\<dots> = filter P s"
    using assms by (simp add: filter_dropWhile_disjoint)
  finally show ?thesis .
qed

lemma mem_strip: "\<not> isspace c \<Longrightarrow> c \<in> set (strip s) \<longleftrightarrow> c \<in> set s"
proof -
  assume c: "\<not> isspace c"
  have "filter (\<lambda>x. x = c) (strip s) = filter (\<lambda>x. x = c) s"
    using c by (intro filter_strip) simp
  then have "set (filter (\<lambda>x. x = c) (strip s)) = set (filter (\<lambda>x. x = c) s)"
    by simp
  then show ?thesis by auto
qed

lemma separators_strip: "separators (strip s) = separators s"
  unfolding separators_def by (rule filter_strip) (auto simp: not_isspace_separators)

lemma split_at_last_separator:
  assumes "separators t \<noteq> []"
  shows "\<exists>p q. t = p @ last (separators t) # q \<and> CHR '','' \<notin> set q \<and> CHR ''.'' \<notin> set q"
proof -
  let ?P = "\<lambda>c. c = CHR '','' \<or> c = CHR ''.''"
  from assms have "\<exists>x \<in> set t. ?P x"
    unfolding separators_def filter_empty_conv by blast
  then have "\<exists>p x q. t = p @ x # q \<and> ?P x \<and> (\<forall>z \<in> set q. \<not> ?P z)"
    by (rule split_list_last_prop)
  then obtain p x q where t: "t = p @ x # q" and x: "?P x" and q: "\<forall>z \<in> set q. \<not> ?P z"
    by blast
  from q have fq: "filter ?P q = []"
    unfolding filter_empty_conv by blast
  have "separators t = filter ?P p @ x # filter ?P q"
    unfolding separators_def t using x by simp
  then have "last (separators t) = x"
    using fq by simp
  moreover from q have "CHR '','' \<notin> set q \<and> CHR ''.'' \<notin> set q"
    by blast
  ultimately show ?thesis using t by blast
qed

lemma comma_last_iff:
  assumes "CHR '','' \<in> set t" and "CHR ''.'' \<in> set t"
  shows "rfind CHR ''.'' t < rfind CHR '','' t \<longleftrightarrow> last (separators t) = CHR '',''"
proof -
  from assms have ne: "separators t \<noteq> []"
    by (auto simp: separators_def filter_empty_conv)
  then obtain p q where t: "t = p @ last (separators t) # q"
    and q: "CHR '','' \<notin> set q" "CHR ''.'' \<notin> set q"
    using split_at_last_separator by blast
  from ne have "last (separators t) \<in> set (separators t)" by simp
  then have "last (separators t) = CHR '','' \<or> last (separators t) = CHR ''.''"
    by (auto simp: separators_def)
  then show ?thesis
  proof
    assume l: "last (separators t) = CHR '',''"
    with t have t': "t = p @ CHR '','' # q" by simp
    have "rfind CHR '','' (p @ CHR '','' # q) = int (length p)"
      using q by (simp add: rfind_last)
    moreover have "rfind CHR ''.'' (p @ CHR '','' # q) < int (length p)"
      using q by (intro rfind_before) simp_all
    ultimately show ?thesis using l t' by simp
  next
    assume l: "last (separators t) = CHR ''.''"
    with t have t': "t = p @ CHR ''.'' # q" by simp
    have "rfind CHR ''.'' (p @ CHR ''.'' # q) = int (length p)"
      using q by (simp add: rfind_last)
    moreover have "rfind CHR '','' (p @ CHR ''.'' # q) < int (length p)"
      using q by (intro rfind_before) simp_all
    ultimately show ?thesis using l t' by simp
  qed
qed

subsection \<open>Both separators\<close>

text \<open>
  Claim C2. For every text that contains both a comma and a dot, \<open>_parse_amount\<close>
  takes the separator that occurs last as the decimal separator: it removes every
  occurrence of the other separator from the stripped text, writes the decimal separator
  as a dot, and returns what \<open>float\<close> makes of the result. In particular
  \<open>1.234,56\<close> and \<open>1,234.56\<close> both give the float 1234.56.
\<close>

theorem parse_amount_both_separators:
  assumes "CHR '','' \<in> set s" and "CHR ''.'' \<in> set s"
  shows "parse_amount s =
           (if last (separators s) = CHR '',''
            then float_of_str (map (\<lambda>c. if c = CHR '','' then CHR ''.'' else c)
                                 (filter (\<lambda>c. c \<noteq> CHR ''.'') (strip s)))
            else float_of_str (filter (\<lambda>c. c \<noteq> CHR '','') (strip s)))"
proof -
  have m: "CHR '','' \<in> set (strip s)" "CHR ''.'' \<in> set (strip s)"
    using assms by (simp_all add: mem_strip not_isspace_separators)
  have "rfind CHR ''.'' (strip s) < rfind CHR '','' (strip s) \<longleftrightarrow> last (separators s) = CHR '',''"
    using comma_last_iff [OF m] by (simp add: separators_strip)
  then show ?thesis
    using m by (simp add: parse_amount_def Let_def replace_remove replace_one)
qed

lemma float_of_str_1234_56: "float_of_str ''1234.56'' = Inr (Finite False 5429652300748554 (- 42))"
  by code_simp

lemma strip_amounts:
  "strip ''1.234,56'' = ''1.234,56''" "strip ''1,234.56'' = ''1,234.56''"
  "strip [CHR ''.'', CHR 0x1F, CHR ''1'', CHR '','', CHR ''5'']
     = [CHR ''.'', CHR 0x1F, CHR ''1'', CHR '','', CHR ''5'']"
  by code_simp+

lemma float_of_str_separator_control:
  "float_of_str [CHR 0x1F, CHR ''1'', CHR ''.'', CHR ''5''] = Inl ValueError"
  "float_of_str [CHR ''2'', CHR 0x1F] = Inl ValueError"
  by code_simp+

text \<open>
  At the two texts of the claim. The result is the binary64 value nearest to 1234.56,
  which is \<open>5429652300748554 * 2^-42\<close>, the value of Python's literal \<open>1234.56\<close>.
  At a dot, the unit separator (code point 31), \<open>1,5\<close>: the comma occurs last, the dot
  is removed, and \<open>float\<close> refuses the text that starts with the unit separator, which
  is white space to \<open>str.strip\<close> but not to \<open>float\<close>.
\<close>

theorem parse_amount_both_separators_witness:
  "parse_amount ''1.234,56'' = float_of_str ''1234.56''
   \<and> parse_amount ''1,234.56'' = float_of_str ''1234.56''
   \<and> float_of_str ''1234.56'' = Inr (Finite False 5429652300748554 (- 42))
   \<and> parse_amount [CHR ''.'', CHR 0x1F, CHR ''1'', CHR '','', CHR ''5''] = Inl ValueError"
proof -
  have 1: "parse_amount ''1.234,56'' = float_of_str ''1234.56''"
    using parse_amount_both_separators [of "''1.234,56''"]
    by (simp add: separators_def strip_amounts)
  have 2: "parse_amount ''1,234.56'' = float_of_str ''1234.56''"
    using parse_amount_both_separators [of "''1,234.56''"]
    by (simp add: separators_def strip_amounts)
  have 3: "parse_amount [CHR ''.'', CHR 0x1F, CHR ''1'', CHR '','', CHR ''5''] = Inl ValueError"
    using parse_amount_both_separators [of "[CHR ''.'', CHR 0x1F, CHR ''1'', CHR '','', CHR ''5'']"]
    by (simp add: separators_def strip_amounts float_of_str_separator_control)
  show ?thesis using 1 2 3 float_of_str_1234_56 by simp
qed

subsection \<open>Commas only\<close>

text \<open>
  Claim C1, as the code has it. For a text with a comma and no dot, \<open>_parse_amount\<close>
  measures \<open>len(amount_str) - comma_pos\<close>, which counts the last comma itself: the
  comma is the decimal separator exactly when it is not the first character and exactly
  two characters follow it; otherwise all commas are removed. So \<open>1234,56\<close> is read as
  1234.56 and \<open>1,234\<close>, where three characters follow the comma, as 1234.
\<close>

theorem parse_amount_commas_only:
  assumes "strip s = p @ CHR '','' # q" and "CHR '','' \<notin> set q" and "CHR ''.'' \<notin> set (p @ q)"
  shows "parse_amount s =
           (if p \<noteq> [] \<and> length q = 2
            then float_of_str (map (\<lambda>c. if c = CHR '','' then CHR ''.'' else c) (strip s))
            else float_of_str (filter (\<lambda>c. c \<noteq> CHR '','') (strip s)))"
proof -
  have r: "rfind CHR '','' (strip s) = int (length p)"
    using assms by (simp add: rfind_last)
  have d: "CHR ''.'' \<notin> set (strip s)"
    using assms by simp
  have c: "CHR '','' \<in> set (strip s)"
    using assms by simp
  have "int (length (strip s)) - int (length p) = 3 \<longleftrightarrow> length q = 2"
    using assms(1) by auto
  moreover have "0 < int (length p) \<longleftrightarrow> p \<noteq> []" by simp
  ultimately show ?thesis
    using r d c
    by (simp add: parse_amount_def Let_def replace_remove replace_one del: of_nat_0_less_iff)
qed

lemma float_of_str_1234: "float_of_str ''1234'' = Inr (Finite False 5427189394702336 (- 42))"
  by code_simp

lemma float_of_str_1_234: "float_of_str ''1.234'' = Inr (Finite False 5557441940175192 (- 52))"
  by code_simp

lemma strip_comma_amounts:
  "strip ''1,234'' = ''1,234''" "strip ''1234,56'' = ''1234,56''"
  "strip [CHR ''2'', CHR 0x1F, CHR '',''] = [CHR ''2'', CHR 0x1F, CHR '','']"
  by code_simp+

text \<open>
  At \<open>1234,56\<close> and \<open>1,234\<close>, and at \<open>2\<close>, the unit separator (code point 31) and
  a comma: the comma is removed and \<open>float\<close> refuses the text that ends with the unit
  separator.
\<close>

theorem parse_amount_commas_only_witness:
  "parse_amount ''1234,56'' = float_of_str ''1234.56''
   \<and> parse_amount ''1,234'' = float_of_str ''1234''
   \<and> float_of_str ''1234'' = Inr (Finite False 5427189394702336 (- 42))
   \<and> parse_amount [CHR ''2'', CHR 0x1F, CHR '',''] = Inl ValueError"
proof -
  have 1: "parse_amount ''1234,56'' = float_of_str ''1234.56''"
    using parse_amount_commas_only [of "''1234,56''" "''1234''" "''56''"]
    by (simp add: strip_comma_amounts)
  have 2: "parse_amount ''1,234'' = float_of_str ''1234''"
    using parse_amount_commas_only [of "''1,234''" "''1''" "''234''"]
    by (simp add: strip_comma_amounts)
  have 3: "parse_amount [CHR ''2'', CHR 0x1F, CHR '',''] = Inl ValueError"
    using parse_amount_commas_only [of "[CHR ''2'', CHR 0x1F, CHR '','']" "[CHR ''2'', CHR 0x1F]" "[]"]
    by (simp add: strip_comma_amounts float_of_str_separator_control)
  show ?thesis using 1 2 3 float_of_str_1234 by simp
qed

text \<open>
  The claim as stated fails: \<open>1,234\<close> is read as 1234 (\<open>5427189394702336 * 2^-42\<close>),
  which is not the float 1.234 (\<open>5557441940175192 * 2^-52\<close>).
\<close>

theorem parse_amount_1_234_counterexample:
  "parse_amount ''1,234'' = Inr (Finite False 5427189394702336 (- 42))
   \<and> float_of_str ''1.234'' = Inr (Finite False 5557441940175192 (- 52))
   \<and> parse_amount ''1,234'' \<noteq> float_of_str ''1.234''"
proof -
  have "parse_amount ''1,234'' = Inr (Finite False 5427189394702336 (- 42))"
    by code_simp
  then show ?thesis using float_of_str_1_234 by simp
qed

section \<open>Properties of the date normaliser\<close>

subsection \<open>Digits\<close>

lemma isdigit_digit_char: "n < 10 \<Longrightarrow> isdigit (digit_char n)"
  by (simp add: isdigit_def digit_char_def)

lemma digit_val_digit_char: "n < 10 \<Longrightarrow> digit_val (digit_char n) = n"
  by (simp add: digit_val_def digit_char_def)

lemma isdigit_pad2: "isdigit (digit_char (n div 10 mod 10))" "isdigit (digit_char (n mod 10))"
  by (simp_all add: isdigit_digit_char)

lemma not_isdigit_minus: "\<not> isdigit CHR ''-''"
  by (simp add: isdigit_def)

lemma digit_char_simps:
  "digit_char 0 = CHR ''0''" "digit_char 1 = CHR ''1''" "digit_char 2 = CHR ''2''"
  "digit_char 3 = CHR ''3''" "digit_char 4 = CHR ''4''" "digit_char 5 = CHR ''5''"
  "digit_char 6 = CHR ''6''" "digit_char 7 = CHR ''7''" "digit_char 8 = CHR ''8''"
  "digit_char 9 = CHR ''9''" "digit_char (Suc 0) = CHR ''1''"
  by code_simp+

subsection \<open>What a match leaves\<close>

lemma re_d_rest: "(v, r) \<in> set (re_d s) \<Longrightarrow> \<exists>p. s = p @ r"
  by (auto simp: re_d_def split: list.splits if_splits)

lemma re_m_rest: "(v, r) \<in> set (re_m s) \<Longrightarrow> \<exists>p. s = p @ r"
  by (auto simp: re_m_def split: list.splits if_splits)

lemma re_lit_rest: "r \<in> set (re_lit c s) \<Longrightarrow> s = c # r"
  by (auto simp: re_lit_def split: list.splits if_splits)

lemma re_Y_rest:
  "(v, r) \<in> set (re_Y s) \<Longrightarrow> \<exists>a b c d. s = a # b # c # d # r \<and> isdigit b"
  by (auto simp: re_Y_def split: list.splits if_splits)

lemma format_regex_DMY_rest:
  assumes "(dt, r5) \<in> set (format_regex (DMY sep) s)"
  shows "\<exists>p a b c d. s = p @ a # b # c # d # r5 \<and> isdigit b"
proof -
  from assms obtain dd r1 r2 mm r3 r4 yy where
    1: "(dd, r1) \<in> set (re_d s)" and 2: "r2 \<in> set (re_lit sep r1)" and
    3: "(mm, r3) \<in> set (re_m r2)" and 4: "r4 \<in> set (re_lit sep r3)" and
    5: "(yy, r5) \<in> set (re_Y r4)"
    by (auto simp: set_list_bind)
  from 1 obtain p1 where s: "s = p1 @ r1" using re_d_rest by blast
  from 2 have r1: "r1 = sep # r2" by (rule re_lit_rest)
  from 3 obtain p3 where r2: "r2 = p3 @ r3" using re_m_rest by blast
  from 4 have r3: "r3 = sep # r4" by (rule re_lit_rest)
  from 5 obtain a b c d where r4: "r4 = a # b # c # d # r5" and b: "isdigit b"
    using re_Y_rest by blast
  have "s = (p1 @ sep # p3 @ [sep]) @ a # b # c # d # r5"
    by (simp add: s r1 r2 r3 r4)
  with b show ?thesis by blast
qed

text \<open>
  A text that ends with a hyphen and two more characters before its last one, as every
  text printed by \<open>strftime\<close> does, is not a day-month-year date: the year of such a
  date takes the last four characters, all digits.
\<close>

lemma strptime_DMY_printed:
  "strptime (ys @ ''-'' @ [m1, m2] @ ''-'' @ [d1, d2]) (DMY sep) = Inl ValueError"
proof (rule ccontr)
  let ?t = "ys @ ''-'' @ [m1, m2] @ ''-'' @ [d1, d2]"
  assume "strptime ?t (DMY sep) \<noteq> Inl ValueError"
  then obtain dt zs where "format_regex (DMY sep) ?t = (dt, []) # zs"
    by (auto simp: strptime_def split: list.splits pydate.splits if_splits prod.splits)
  then have "(dt, []) \<in> set (format_regex (DMY sep) ?t)"
    by simp
  then obtain p a b c d where t: "?t = p @ [a, b, c, d]" and b: "isdigit b"
    using format_regex_DMY_rest by fastforce
  from t have "b = CHR ''-''"
    by simp
  with b show False
    by (simp add: not_isdigit_minus)
qed

subsection \<open>Reading back what \<open>strftime\<close> prints\<close>

lemma re_m_pad2:
  assumes "1 \<le> m" and "m \<le> 12"
  shows "\<exists>xs. re_m (pad2 m @ r) = (m, r) # xs"
proof -
  from assms have "m = 1 \<or> m = 2 \<or> m = 3 \<or> m = 4 \<or> m = 5 \<or> m = 6 \<or> m = 7 \<or> m = 8 \<or> m = 9
      \<or> m = 10 \<or> m = 11 \<or> m = 12"
    by arith
  then show ?thesis
    by (elim disjE) (simp_all add: re_m_def pad2_def digit_char_simps in_range_def digit_val_def)
qed

lemma re_d_pad2_units:
  assumes "1 \<le> d" and "d \<le> 9"
  shows "\<exists>xs. re_d (pad2 d @ r) = (d, r) # xs"
proof -
  from assms have "d = 1 \<or> d = 2 \<or> d = 3 \<or> d = 4 \<or> d = 5 \<or> d = 6 \<or> d = 7 \<or> d = 8 \<or> d = 9"
    by arith
  then show ?thesis
    by (elim disjE) (simp_all add: re_d_def pad2_def digit_char_simps in_range_def digit_val_def isdigit_def)
qed

lemma re_d_pad2_tens:
  assumes "10 \<le> d" and "d \<le> 19"
  shows "\<exists>xs. re_d (pad2 d @ r) = (d, r) # xs"
proof -
  from assms have "d = 10 \<or> d = 11 \<or> d = 12 \<or> d = 13 \<or> d = 14 \<or> d = 15 \<or> d = 16 \<or> d = 17
      \<or> d = 18 \<or> d = 19"
    by arith
  then show ?thesis
    by (elim disjE) (simp_all add: re_d_def pad2_def digit_char_simps in_range_def digit_val_def isdigit_def)
qed

lemma re_d_pad2_twenties:
  assumes "20 \<le> d" and "d \<le> 31"
  shows "\<exists>xs. re_d (pad2 d @ r) = (d, r) # xs"
proof -
  from assms have "d = 20 \<or> d = 21 \<or> d = 22 \<or> d = 23 \<or> d = 24 \<or> d = 25 \<or> d = 26 \<or> d = 27
      \<or> d = 28 \<or> d = 29 \<or> d = 30 \<or> d = 31"
    by arith
  then show ?thesis
    by (elim disjE) (simp_all add: re_d_def pad2_def digit_char_simps in_range_def digit_val_def isdigit_def)
qed

lemma re_d_pad2:
  assumes "1 \<le> d" and "d \<le> 31"
  shows "\<exists>xs. re_d (pad2 d @ r) = (d, r) # xs"
proof -
  from assms consider "1 \<le> d \<and> d \<le> 9" | "10 \<le> d \<and> d \<le> 19" | "20 \<le> d \<and> d \<le> 31"
    by arith
  then show ?thesis
    using re_d_pad2_units re_d_pad2_tens re_d_pad2_twenties by cases blast+
qed

lemma four_digits_value:
  "y \<le> 9999 \<Longrightarrow>
   1000 * (y div 1000 mod 10) + 100 * (y div 100 mod 10) + 10 * (y div 10 mod 10) + y mod 10 = (y::nat)"
proof -
  assume y: "y \<le> 9999"
  have 1: "y mod 100 = 10 * (y div 10 mod 10) + y mod 10"
    using mod_mult2_eq [of y 10 10] by simp
  have 2: "y mod 1000 = 100 * (y div 100 mod 10) + y mod 100"
    using mod_mult2_eq [of y 100 10] by simp
  have 3: "y mod 10000 = 1000 * (y div 1000 mod 10) + y mod 1000"
    using mod_mult2_eq [of y 1000 10] by simp
  from y have "y mod 10000 = y" by simp
  with 1 2 3 show ?thesis by linarith
qed

lemma re_Y_four_digits:
  assumes "y \<le> 9999"
  shows "re_Y ([digit_char (y div 1000 mod 10), digit_char (y div 100 mod 10),
                digit_char (y div 10 mod 10), digit_char (y mod 10)] @ r) = [(y, r)]"
proof -
  have "isdigit (digit_char (y div 1000 mod 10))" "isdigit (digit_char (y div 100 mod 10))"
    "isdigit (digit_char (y div 10 mod 10))" "isdigit (digit_char (y mod 10))"
    by (simp_all add: isdigit_digit_char)
  moreover have "1000 * digit_val (digit_char (y div 1000 mod 10))
      + 100 * digit_val (digit_char (y div 100 mod 10))
      + 10 * digit_val (digit_char (y div 10 mod 10)) + digit_val (digit_char (y mod 10)) = y"
    using four_digits_value [OF assms] by (simp only: digit_val_digit_char mod_less_divisor zero_less_numeral)
  ultimately show ?thesis
    by (simp only: re_Y_def append_Cons append_Nil list.case if_True simp_thms)
qed

lemma days_in_month_le: "days_in_month y m \<le> 31"
  by (simp add: days_in_month_def)

lemma strptime_YMD_four_digits:
  assumes "1 \<le> y" "y \<le> 9999" "1 \<le> m" "m \<le> 12" "1 \<le> d" "d \<le> days_in_month y m"
  shows "strptime ([digit_char (y div 1000 mod 10), digit_char (y div 100 mod 10),
                    digit_char (y div 10 mod 10), digit_char (y mod 10)]
                   @ ''-'' @ pad2 m @ ''-'' @ pad2 d) (YMD CHR ''-'') = Inr (Date y m d)"
proof -
  let ?ys = "[digit_char (y div 1000 mod 10), digit_char (y div 100 mod 10),
              digit_char (y div 10 mod 10), digit_char (y mod 10)]"
  from assms have d31: "d \<le> 31" using days_in_month_le [of y m] by simp
  obtain ms where ms: "re_m (pad2 m @ ''-'' @ pad2 d) = (m, ''-'' @ pad2 d) # ms"
    using re_m_pad2 [OF assms(3,4)] by blast
  obtain ds where ds: "re_d (pad2 d) = (d, []) # ds"
    using re_d_pad2 [OF assms(5) d31, of "[]"] by auto
  have Y: "re_Y (?ys @ ''-'' @ pad2 m @ ''-'' @ pad2 d) = [(y, ''-'' @ pad2 m @ ''-'' @ pad2 d)]"
    using assms(2) by (rule re_Y_four_digits)
  have "\<exists>zs. format_regex (YMD CHR ''-'') (?ys @ ''-'' @ pad2 m @ ''-'' @ pad2 d) = (Date y m d, []) # zs"
    unfolding format_regex.simps Y using ms ds by (simp add: re_lit_def)
  then show ?thesis
    using assms by (auto simp: strptime_def)
qed

lemma re_Y_short_year:
  "re_Y ([a] @ ''-'' @ r) = []" "re_Y ([a, b] @ ''-'' @ r) = []" "re_Y ([a, b, c] @ ''-'' @ r) = []"
  by (simp_all add: re_Y_def not_isdigit_minus split: list.splits)

lemma strptime_YMD_short_year:
  assumes "length ys < 4" and "ys \<noteq> []"
  shows "strptime (ys @ ''-'' @ r) (YMD sep) = Inl ValueError"
proof -
  from assms have "(\<exists>a. ys = [a]) \<or> (\<exists>a b. ys = [a, b]) \<or> (\<exists>a b c. ys = [a, b, c])"
    by (cases ys; cases "tl ys"; cases "tl (tl ys)"; cases "tl (tl (tl ys))") auto
  then have "re_Y (ys @ ''-'' @ r) = []"
    using re_Y_short_year by metis
  then show ?thesis
    by (simp add: strptime_def)
qed

lemma year_str_short: "\<not> padded \<Longrightarrow> y < 1000 \<Longrightarrow> length (year_str padded y) < 4 \<and> year_str padded y \<noteq> []"
  by (simp add: year_str_def)

text \<open>A printed date is a fixed point of the normaliser.\<close>

lemma normalize_date_strftime:
  assumes "1 \<le> y" "y \<le> 9999" "1 \<le> m" "m \<le> 12" "1 \<le> d" "d \<le> days_in_month y m"
  shows "normalize_date padded (strftime padded (Date y m d)) = strftime padded (Date y m d)"
proof -
  let ?t = "strftime padded (Date y m d)"
  have t: "?t = year_str padded y @ ''-'' @ [digit_char (m div 10 mod 10), digit_char (m mod 10)]
             @ ''-'' @ [digit_char (d div 10 mod 10), digit_char (d mod 10)]"
    by (simp add: pad2_def)
  have dmy: "strptime ?t (DMY sep) = Inl ValueError" for sep
    unfolding t by (rule strptime_DMY_printed)
  show ?thesis
  proof (cases "padded \<or> 1000 \<le> y")
    case True
    then have "strptime ?t (YMD CHR ''-'') = Inr (Date y m d)"
      using strptime_YMD_four_digits [OF assms] by (simp add: year_str_def)
    then show ?thesis
      by (simp add: normalize_date_def date_formats_def dmy del: strftime.simps)
  next
    case False
    then have "strptime ?t (YMD sep) = Inl ValueError" for sep
      using strptime_YMD_short_year [of "year_str padded y" "pad2 m @ ''-'' @ pad2 d" sep]
        year_str_short [of padded y]
      by simp
    then show ?thesis
      by (simp add: normalize_date_def date_formats_def dmy del: strftime.simps)
  qed
qed

lemma strptime_valid:
  "strptime s fmt = Inr (Date y m d) \<Longrightarrow>
   1 \<le> y \<and> y \<le> 9999 \<and> 1 \<le> m \<and> m \<le> 12 \<and> 1 \<le> d \<and> d \<le> days_in_month y m"
  by (auto simp: strptime_def split: list.splits pydate.splits if_splits prod.splits)

lemma try_formats_Some:
  "try_formats padded fmts s = Some r \<Longrightarrow> \<exists>fmt dt. strptime s fmt = Inr dt \<and> r = strftime padded dt"
  by (induction fmts) (auto split: sum.splits exn.splits)

lemma normalize_date_examples_padded:
  "normalize_date True ''05.03.2024'' = ''2024-03-05''"
  "normalize_date True ''2024-03-05'' = ''2024-03-05''"
  "normalize_date True ''March'' = ''March''"
  by code_simp+

lemma normalize_date_examples_unpadded:
  "normalize_date False ''05.03.2024'' = ''2024-03-05''"
  "normalize_date False ''2024-03-05'' = ''2024-03-05''"
  "normalize_date False ''March'' = ''March''"
  by code_simp+

lemma normalize_date_examples:
  "normalize_date padded ''05.03.2024'' = ''2024-03-05''"
  "normalize_date padded ''2024-03-05'' = ''2024-03-05''"
  "normalize_date padded ''March'' = ''March''"
  using normalize_date_examples_padded normalize_date_examples_unpadded
  by (cases padded; simp)+

text \<open>
  Claim C9. \<open>_normalize_date\<close> is idempotent: normalising a normalised text changes
  nothing, whether the platform pads years to four digits or not. The canonical
  \<open>2024-03-05\<close> maps to itself, \<open>05.03.2024\<close> maps to it, and \<open>March\<close>, which no
  format parses, is returned as it is; the function has no failing branch.
\<close>

theorem normalize_date_idempotent:
  "normalize_date padded (normalize_date padded s) = normalize_date padded s
   \<and> normalize_date padded ''2024-03-05'' = ''2024-03-05''
   \<and> normalize_date padded ''05.03.2024'' = ''2024-03-05''
   \<and> normalize_date padded ''March'' = ''March''"
proof -
  have "normalize_date padded (normalize_date padded s) = normalize_date padded s"
  proof (cases "try_formats padded date_formats s")
    case None
    then have "normalize_date padded s = s"
      by (simp add: normalize_date_def)
    then show ?thesis by simp
  next
    case (Some r)
    then obtain fmt dt where p: "strptime s fmt = Inr dt" and r: "r = strftime padded dt"
      using try_formats_Some by blast
    obtain y m d where dt: "dt = Date y m d" by (cases dt)
    from p dt have v: "1 \<le> y \<and> y \<le> 9999 \<and> 1 \<le> m \<and> m \<le> 12 \<and> 1 \<le> d \<and> d \<le> days_in_month y m"
      using strptime_valid by blast
    from Some have n: "normalize_date padded s = strftime padded (Date y m d)"
      by (simp add: normalize_date_def r dt)
    show ?thesis
      unfolding n using v by (intro normalize_date_strftime) simp_all
  qed
  then show ?thesis
    by (simp add: normalize_date_examples)
qed

section \<open>Properties of the totals rule\<close>

lemma TotalConsistencyRule_emits_iff:
  assumes "net_total invoice = Some net" "tax_amount invoice = Some tax" "gross_total invoice = Some gross"
  shows "TotalConsistencyRule_validate rt invoice \<noteq> None
           \<longleftrightarrow> float_gt (float_abs (float_sub (round2 (float_add net tax)) (round2 gross))) float_0_01"
  using assms by (simp add: TotalConsistencyRule_validate_def Let_def)

text \<open>The equations that evaluate float arithmetic on numerals.\<close>

lemmas float_eval = float_sub_def round_dyadic_def round_ratio_def floor_log2_def ge_pow2_def rne_def
  aligned_def Let_def bit_length.simps

lemma totals_literals:
  "float_lit ''100.00'' = Finite False 7036874417766400 (- 46)"
  "float_lit ''20.00'' = Finite False 5629499534213120 (- 48)"
  "float_lit ''120.00'' = Finite False 8444249301319680 (- 46)"
  "float_lit ''120.01'' = Finite False 8444952988761457 (- 46)"
  "float_lit ''120.02'' = Finite False 8445656676203233 (- 46)"
  "float_0_01 = Finite False 5764607523034235 (- 59)"
  by code_simp+

lemma totals_expected:
  "round2 (float_add (Finite False 7036874417766400 (- 46)) (Finite False 5629499534213120 (- 48)))
     = Finite False 8444249301319680 (- 46)"
  by (simp add: float_eval)

lemma totals_actual:
  "round2 (Finite False 8444249301319680 (- 46)) = Finite False 8444249301319680 (- 46)"
  "round2 (Finite False 8444952988761457 (- 46)) = Finite False 8444952988761457 (- 46)"
  "round2 (Finite False 8445656676203233 (- 46)) = Finite False 8445656676203233 (- 46)"
  by (simp_all add: float_eval)

lemma totals_differences:
  "float_abs (float_sub (Finite False 8444249301319680 (- 46)) (Finite False 8444249301319680 (- 46)))
     = Finite False 0 (- 1074)"
  "float_abs (float_sub (Finite False 8444249301319680 (- 46)) (Finite False 8444952988761457 (- 46)))
     = Finite False 5764607523037184 (- 59)"
  "float_abs (float_sub (Finite False 8444249301319680 (- 46)) (Finite False 8445656676203233 (- 46)))
     = Finite False 5764607523033088 (- 58)"
  by (simp_all add: float_eval)

lemma totals_comparisons:
  "\<not> float_gt (Finite False 0 (- 1074)) (Finite False 5764607523034235 (- 59))"
  "float_gt (Finite False 5764607523037184 (- 59)) (Finite False 5764607523034235 (- 59))"
  "float_gt (Finite False 5764607523033088 (- 58)) (Finite False 5764607523034235 (- 59))"
  by (simp_all add: float_gt_def aligned_def)

lemma totals_well_formed:
  "is_binary64 (Finite False 7036874417766400 (- 46))"
  "is_binary64 (Finite False 5629499534213120 (- 48))"
  "is_binary64 (Finite False 8444952988761457 (- 46))"
  by (simp_all add: is_binary64_def)

text \<open>
  Claim C3, at its boundary. The rule reports exactly when the float
  \<open>abs(round(net + tax, 2) - round(gross, 2))\<close> exceeds the float \<open>0.01\<close>
  (\<open>TotalConsistencyRule_emits_iff\<close>). For net 100.00, tax 20.00 and gross 120.01, all
  binary64 values, the difference is \<open>5764607523037184 * 2^-59\<close>, about
  0.010000000000005116, and the float \<open>0.01\<close> is \<open>5764607523034235 * 2^-59\<close>: the rule
  reports a mismatch, where the claim has none. Gross 120.00 passes and gross 120.02 is
  reported, as the claim says.
\<close>

theorem totals_mismatch_at_tolerance_boundary:
  "TotalConsistencyRule_validate rt (totals_invoice ''100.00'' ''20.00'' ''120.01'')
     = Some (''business_rule_failed: totals_mismatch (expected ''
             @ float_repr rt (float_lit ''120.00'') @ '', got '' @ float_repr rt (float_lit ''120.01'') @ '')'')
   \<and> float_abs (float_sub (round2 (float_add (float_lit ''100.00'') (float_lit ''20.00'')))
                           (round2 (float_lit ''120.01'')))
       = Finite False 5764607523037184 (- 59)
   \<and> float_0_01 = Finite False 5764607523034235 (- 59)
   \<and> is_binary64 (float_lit ''100.00'') \<and> is_binary64 (float_lit ''20.00'')
   \<and> is_binary64 (float_lit ''120.01'')
   \<and> TotalConsistencyRule_validate rt (totals_invoice ''100.00'' ''20.00'' ''120.00'') = None
   \<and> TotalConsistencyRule_validate rt (totals_invoice ''100.00'' ''20.00'' ''120.02'')
       = Some (''business_rule_failed: totals_mismatch (expected ''
               @ float_repr rt (float_lit ''120.00'') @ '', got '' @ float_repr rt (float_lit ''120.02'') @ '')'')"
  by (simp add: TotalConsistencyRule_validate_def totals_invoice_def empty_invoice_def Let_def
      totals_literals totals_expected totals_actual totals_differences totals_comparisons
      totals_well_formed del: float_add.simps round2.simps float_abs.simps float_lt.simps)

end
